theory Spec2Isabelle
  imports
    Complex_Main
    "HOL-Library.Char_ord"
    "HOL-Library.List_Lexorder"
    "HOL-Library.Product_Lexorder"
    "HOL-Library.Finite_Map"
    "HOL-Library.Log_Nat"
    "HOL-Library.Multiset"
begin

section \<open>Python values\<close>

text \<open>
  A Python \<open>str\<close> and a \<open>bytes\<close> object are both modelled as \<^typ>\<open>string\<close>: a list of
  characters with code points below 256, compared lexicographically by code point as
  Python compares strings. An exception is a value of \<open>exn\<close>; only exceptions of class
  \<open>Exception\<close> are modelled, the ones every \<open>except Exception\<close> of the program catches.
\<close>

datatype exn =
    ValueError
  | FileNotFoundError
  | OverflowError
  | IndexError
  | TypeError
  | AttributeError
  | JSONDecodeError
  | ValidationError
  | LibraryError string

text \<open>
  The values \<open>json.loads\<close> can return. \<open>PNone\<close> is Python's \<open>None\<close>, the absence marker
  of the specification. A \<open>PDict\<close> lists the items of a dictionary, one pair for each key.
\<close>

datatype pyvalue =
    PNone
  | PBool bool
  | PInt int
  | PFloat rat
  | PStr string
  | PList "pyvalue list"
  | PDict "(string \<times> pyvalue) list"

text \<open>
  An extraction schema is a \<open>Dict[str, str]\<close> from field names to descriptions: the
  list of its items in insertion order. The keys of a dictionary are distinct;
  theorems that depend on this say so.
\<close>

type_synonym schema = "(string \<times> string) list"

definition keys :: "('k \<times> 'v) list \<Rightarrow> 'k list" where
  "keys d = map fst d"

text \<open>\<open>sep.join(parts)\<close>\<close>

fun join :: "string \<Rightarrow> string list \<Rightarrow> string" where
  "join sep [] = []"
| "join sep [p] = p"
| "join sep (p # q # ps) = p @ sep @ join sep (q # ps)"

section \<open>cache\_service.py\<close>

subsection \<open>\<open>json.dumps(extraction_schema, sort_keys=True)\<close>\<close>

definition hexdigit :: "nat \<Rightarrow> char" where
  "hexdigit n = ''0123456789abcdef'' ! (n mod 16)"

text \<open>
  The encoder's default is \<open>ensure_ascii=True\<close>: the quote and the backslash are
  escaped, the control characters with a short form get it, and every other character
  outside the range from space to tilde is written as a \<open>\u\<close> escape of four hexadecimal
  digits.
\<close>

definition escape_char :: "char \<Rightarrow> string" where
  "escape_char c =
     (if c = CHR 0x22 then [CHR 0x5C, CHR 0x22]
      else if c = CHR 0x5C then [CHR 0x5C, CHR 0x5C]
      else if c = CHR 0x0A then [CHR 0x5C, CHR ''n'']
      else if c = CHR 0x0D then [CHR 0x5C, CHR ''r'']
      else if c = CHR 0x09 then [CHR 0x5C, CHR ''t'']
      else if c = CHR 0x0C then [CHR 0x5C, CHR ''f'']
      else if c = CHR 0x08 then [CHR 0x5C, CHR ''b'']
      else if (of_char c :: nat) < 0x20 \<or> 0x7E < (of_char c :: nat) then
        [CHR 0x5C, CHR ''u'', CHR ''0'', CHR ''0'',
         hexdigit (of_char c div 16), hexdigit (of_char c mod 16)]
      else [c])"

definition json_string :: "string \<Rightarrow> string" where
  "json_string s = [CHR 0x22] @ concat (map escape_char s) @ [CHR 0x22]"

definition json_item :: "string \<times> string \<Rightarrow> string" where
  "json_item kv = json_string (fst kv) @ '': '' @ json_string (snd kv)"

text \<open>
  With \<open>sort_keys=True\<close> the encoder writes \<open>sorted(dct.items())\<close>: the items as
  tuples in ascending order, which for a dictionary is the order of the keys. The
  separators are the defaults, a comma and a colon each followed by a space.
\<close>

definition json_dumps_sorted :: "schema \<Rightarrow> string" where
  "json_dumps_sorted d = ''{'' @ join '', '' (map json_item (sort d)) @ ''}''"

subsection \<open>\<open>CacheService\<close>\<close>

text \<open>
  \<open>hashlib.sha256(b).hexdigest()\<close> is a library function and a parameter \<open>sha256\<close> of
  the model. The serialised schema is ASCII, so \<open>schema_str.encode()\<close> is the same
  list of characters.
\<close>

definition CacheService_generate_key ::
    "(string \<Rightarrow> string) \<Rightarrow> string \<Rightarrow> schema \<Rightarrow> string" where
  "CacheService_generate_key sha256 pdf_content extraction_schema =
     (let pdf_hash = sha256 pdf_content;
          schema_str = json_dumps_sorted extraction_schema;
          schema_hash = sha256 schema_str
      in pdf_hash @ '':'' @ schema_hash)"

text \<open>
  The dictionary \<open>self._cache\<close> is a finite map from keys to results. The methods
  that change it return the new dictionary.
\<close>

type_synonym 'v cache = "(string, 'v) fmap"

definition CacheService_get ::
    "(string \<Rightarrow> string) \<Rightarrow> 'v cache \<Rightarrow> string \<Rightarrow> schema \<Rightarrow> 'v option" where
  "CacheService_get sha256 c pdf_content extraction_schema =
     (let key = CacheService_generate_key sha256 pdf_content extraction_schema
      in fmlookup c key)"

definition CacheService_set ::
    "(string \<Rightarrow> string) \<Rightarrow> 'v cache \<Rightarrow> string \<Rightarrow> schema \<Rightarrow> 'v \<Rightarrow> 'v cache" where
  "CacheService_set sha256 c pdf_content extraction_schema result =
     (let key = CacheService_generate_key sha256 pdf_content extraction_schema
      in fmupd key result c)"

definition CacheService_clear :: "'v cache \<Rightarrow> 'v cache" where
  "CacheService_clear c = fmempty"

definition CacheService_size :: "'v cache \<Rightarrow> nat" where
  "CacheService_size c = fcard (fmdom c)"

section \<open>Floating point\<close>

text \<open>
  A Python \<open>float\<close> is an IEEE 754 binary64 number. A finite one is modelled by the
  rational it stands for, and each operation rounds the exact result to the nearest
  representable number, ties to the even significand, as the hardware does.
  \<open>round_double\<close> is that rounding: the significand has 53 bits, and below the normal
  range the spacing stays at \<open>2\<^sup>-\<^sup>1\<^sup>0\<^sup>7\<^sup>4\<close>. Infinities and NaN are left out: the operands of
  this program are token counts scaled down by a million and readings of the clock.
\<close>

type_synonym pyfloat = rat

definition pow2 :: "int \<Rightarrow> rat" where
  "pow2 e = (if 0 \<le> e then 2 ^ nat e else 1 / 2 ^ nat (- e))"

text \<open>The exponent \<open>e\<close> with \<open>2\<^sup>e \<le> a < 2\<^sup>e\<^sup>+\<^sup>1\<close>, for a positive \<open>a\<close>.\<close>

definition ilog2 :: "rat \<Rightarrow> int" where
  "ilog2 a =
     (let e0 = bitlen (fst (quotient_of a)) - bitlen (snd (quotient_of a))
      in if pow2 e0 \<le> a then e0 else e0 - 1)"

definition round_half_even :: "rat \<Rightarrow> int" where
  "round_half_even m =
     (let f = \<lfloor>m\<rfloor>; r = m - of_int f
      in if r < 1 / 2 then f
         else if 1 / 2 < r then f + 1
         else if even f then f else f + 1)"

definition round_double :: "rat \<Rightarrow> pyfloat" where
  "round_double x =
     (if x = 0 then 0
      else let a = \<bar>x\<bar>; e = ilog2 a; q = max (e - 52) (- 1074);
               n = round_half_even (a / pow2 q)
           in sgn x * of_int n * pow2 q)"

definition fmul :: "pyfloat \<Rightarrow> pyfloat \<Rightarrow> pyfloat" where
  "fmul a b = round_double (a * b)"

definition fdiv :: "pyfloat \<Rightarrow> pyfloat \<Rightarrow> pyfloat" where
  "fdiv a b = round_double (a / b)"

definition fadd :: "pyfloat \<Rightarrow> pyfloat \<Rightarrow> pyfloat" where
  "fadd a b = round_double (a + b)"

definition fsub :: "pyfloat \<Rightarrow> pyfloat \<Rightarrow> pyfloat" where
  "fsub a b = round_double (a - b)"

text \<open>
  An \<open>int\<close> operand of a float operation is converted first, rounded the same way;
  an integer too large for a float raises \<open>OverflowError\<close>.
\<close>

definition float_of_int :: "int \<Rightarrow> exn + pyfloat" where
  "float_of_int n =
     (let r = round_double (of_int n)
      in if pow2 1024 \<le> \<bar>r\<bar> then Inl OverflowError else Inr r)"

section \<open>pdf\_extractor.py\<close>

text \<open>
  \<open>pdfplumber.open\<close> is a parameter: it raises or gives the pages of the document.
  A page is what \<open>page.extract_text()\<close> does on it: it raises or returns the text
  (a string, possibly empty, or \<open>None\<close>).
\<close>

type_synonym page = "exn + string option"

definition extract_text_from_pdf ::
    "(string \<Rightarrow> exn + page list) \<Rightarrow> string \<Rightarrow> string option" where
  "extract_text_from_pdf pdfplumber_open' pdf_content =
     (case pdfplumber_open' pdf_content of
        Inl e \<Rightarrow> None
      | Inr pages \<Rightarrow>
          (case pages of
             [] \<Rightarrow> None
           | page # _ \<Rightarrow>
               (case page of
                  Inl e \<Rightarrow> None
                | Inr text \<Rightarrow> (if text = None \<or> text = Some [] then None else text))))"

section \<open>llm\_service.py\<close>

record LLMService =
  client :: string
  model :: string

text \<open>
  A response of the completion endpoint, as far as the program reads it:
  \<open>response.usage\<close> with its two token counts (or no usage), and the
  \<open>message.content\<close> of each of \<open>response.choices\<close>.
\<close>

record completion =
  usage :: "(int \<times> int) option"
  choices :: "string option list"

definition LLMService_init :: "(string \<Rightarrow> string option) \<Rightarrow> exn + LLMService" where
  "LLMService_init os_getenv' =
     (let api_key = os_getenv' ''OPENAI_API_KEY''
      in if api_key = None \<or> api_key = Some [] then Inl ValueError
         else Inr \<lparr>client = the api_key, model = ''gpt-5-mini''\<rparr>)"

definition LLMService_build_prompt :: "string \<Rightarrow> schema \<Rightarrow> string option \<Rightarrow> string" where
  "LLMService_build_prompt text extraction_schema label =
     (let schema_parts =
            map (\<lambda>(field, description). [CHR 0x22] @ field @ [CHR 0x22] @ '': '' @ description)
              extraction_schema;
          schema_text = join [CHR 0x0A] schema_parts;
          label_context =
            (if label = None \<or> label = Some [] then []
             else [CHR 0x0A] @ ''Document type (label): '' @ the label @ [CHR 0x0A])
      in ''Extract the following fields from this text. Return JSON only.'' @ label_context
         @ [CHR 0x0A, CHR 0x0A] @ ''Fields to extract:'' @ [CHR 0x0A] @ schema_text
         @ [CHR 0x0A, CHR 0x0A] @ ''Text:'' @ [CHR 0x0A] @ text)"

definition system_message :: string where
  "system_message =
     ''You are a data extraction assistant. Extract information from the given text and return ONLY valid JSON. If a field cannot be found, return null for that field.''"

text \<open>\<open>result_json.get(field)\<close>: only a dictionary has the method.\<close>

fun py_get :: "pyvalue \<Rightarrow> string \<Rightarrow> exn + pyvalue" where
  "py_get (PDict items) field =
     Inr (case map_of items field of None \<Rightarrow> PNone | Some v \<Rightarrow> v)"
| "py_get _ field = Inl AttributeError"

text \<open>
  The loop \<open>for field in extraction_schema.keys(): extracted_data[field] = result_json.get(field)\<close>.
\<close>

fun collect_fields :: "pyvalue \<Rightarrow> string list \<Rightarrow> exn + (string \<times> pyvalue) list" where
  "collect_fields result_json [] = Inr []"
| "collect_fields result_json (field # rest) =
     (case py_get result_json field of
        Inl e \<Rightarrow> Inl e
      | Inr v \<Rightarrow>
          (case collect_fields result_json rest of
             Inl e \<Rightarrow> Inl e
           | Inr extracted \<Rightarrow> Inr ((field, v) # extracted)))"

text \<open>\<open>{field: None for field in extraction_schema.keys()}\<close>\<close>

definition all_none :: "schema \<Rightarrow> (string \<times> pyvalue) list" where
  "all_none extraction_schema = map (\<lambda>field. (field, PNone)) (keys extraction_schema)"

text \<open>
  The remote endpoint and \<open>json.loads\<close> are parameters. The endpoint is given the
  number of calls made before this one, so that it may answer the same request
  differently each time. The body of the \<open>try\<close> block follows; the literals \<open>0.075\<close>
  and \<open>0.30\<close> are the floats nearest to them.
\<close>

definition extract_data_try ::
    "(nat \<Rightarrow> LLMService \<Rightarrow> (string \<times> string) list \<Rightarrow> exn + completion) \<Rightarrow>
     (string \<Rightarrow> exn + pyvalue) \<Rightarrow>
     LLMService \<Rightarrow> nat \<Rightarrow> string \<Rightarrow> schema \<Rightarrow> exn + (string \<times> pyvalue) list \<times> pyfloat" where
  "extract_data_try create json_loads' self n prompt extraction_schema =
     (case create n self [(''system'', system_message), (''user'', prompt)] of
        Inl e \<Rightarrow> Inl e
      | Inr response \<Rightarrow>
     (case usage response of
        None \<Rightarrow> Inl AttributeError
      | Some (input_tokens, output_tokens) \<Rightarrow>
     (case float_of_int input_tokens of
        Inl e \<Rightarrow> Inl e
      | Inr input_float \<Rightarrow>
     (case float_of_int output_tokens of
        Inl e \<Rightarrow> Inl e
      | Inr output_float \<Rightarrow>
     (let cost = fadd (fdiv (fmul input_float (round_double (75 / 1000))) 1000000)
                      (fdiv (fmul output_float (round_double (30 / 100))) 1000000)
      in
     (case choices response of
        [] \<Rightarrow> Inl IndexError
      | content # _ \<Rightarrow>
     (case content of
        None \<Rightarrow> Inl TypeError
      | Some content_text \<Rightarrow>
     (case json_loads' content_text of
        Inl e \<Rightarrow> Inl e
      | Inr result_json \<Rightarrow>
     (case collect_fields result_json (keys extraction_schema) of
        Inl e \<Rightarrow> Inl e
      | Inr extracted_data \<Rightarrow> Inr (extracted_data, cost))))))))))"

section \<open>The program's surroundings and its state\<close>

text \<open>
  The dictionary that \<open>ExtractionService.extract\<close> returns has the four entries of
  an \<open>ExtractionResponse\<close>; one record serves for both.
\<close>

record extraction_result =
  extracted_data :: "(string \<times> pyvalue) list"
  cost :: pyfloat
  processing_time :: pyfloat
  cache_hit :: bool

text \<open>
  Everything the program reads from outside itself: the libraries it calls, the
  environment, the remote endpoint, the clock and the file system. \<open>time_time\<close> gives
  the readings of the clock in the order they are taken. \<open>pydantic_validate\<close> is the
  validation an \<open>ExtractionResponse\<close> runs on the entries it is built from.
\<close>

record world =
  hashlib_sha256 :: "string \<Rightarrow> string"
  pdfplumber_open :: "string \<Rightarrow> exn + page list"
  os_getenv :: "string \<Rightarrow> string option"
  chat_completions_create :: "nat \<Rightarrow> LLMService \<Rightarrow> (string \<times> string) list \<Rightarrow> exn + completion"
  json_loads :: "string \<Rightarrow> exn + pyvalue"
  time_time :: "nat \<Rightarrow> pyfloat"
  os_path_exists :: "string \<Rightarrow> bool"
  open_read :: "string \<Rightarrow> exn + string"
  pydantic_validate :: "extraction_result \<Rightarrow> exn + extraction_result"

text \<open>
  The module-level objects: the dictionary of the global \<open>cache_service\<close>, the global
  \<open>_llm_service\<close> (\<open>None\<close> until the first use), and two counters of the model, the
  remote calls made and the clock readings taken so far.
\<close>

record state =
  cache :: "extraction_result cache"
  llm_service :: "LLMService option"
  llm_calls :: nat
  clock_reads :: nat

definition read_clock :: "world \<Rightarrow> state \<Rightarrow> pyfloat \<times> state" where
  "read_clock w st = (time_time w (clock_reads st), st\<lparr>clock_reads := Suc (clock_reads st)\<rparr>)"

text \<open>
  \<open>LLMService.extract_data\<close>: the prompt is built, the \<open>try\<close> block runs, and
  \<open>except Exception\<close> turns every exception of the block into the result with all
  fields \<open>None\<close> and cost \<open>0.0\<close>. The function itself raises nothing.
\<close>

definition LLMService_extract_data ::
    "world \<Rightarrow> LLMService \<Rightarrow> state \<Rightarrow> string \<Rightarrow> schema \<Rightarrow> string option \<Rightarrow>
     ((string \<times> pyvalue) list \<times> pyfloat) \<times> state" where
  "LLMService_extract_data w self st text extraction_schema label =
     (let prompt = LLMService_build_prompt text extraction_schema label;
          st' = st\<lparr>llm_calls := Suc (llm_calls st)\<rparr>
      in case extract_data_try (chat_completions_create w) (json_loads w) self (llm_calls st)
                prompt extraction_schema of
           Inr r \<Rightarrow> (r, st')
         | Inl e \<Rightarrow> ((all_none extraction_schema, 0), st'))"

definition get_llm_service :: "world \<Rightarrow> state \<Rightarrow> (exn + LLMService) \<times> state" where
  "get_llm_service w st =
     (case llm_service st of
        None \<Rightarrow>
          (case LLMService_init (os_getenv w) of
             Inl e \<Rightarrow> (Inl e, st)
           | Inr s \<Rightarrow> (Inr s, st\<lparr>llm_service := Some s\<rparr>))
      | Some s \<Rightarrow> (Inr s, st))"

section \<open>extraction\_service.py\<close>

text \<open>
  \<open>ExtractionService.extract\<close>. A cached result is a dictionary of four entries, so
  \<open>if cached_result\<close> is true exactly when the lookup found one. The function returns
  its result or the exception it raises, and the state it leaves behind in both cases.
\<close>

definition ExtractionService_extract ::
    "world \<Rightarrow> state \<Rightarrow> string \<Rightarrow> schema \<Rightarrow> string option \<Rightarrow> (exn + extraction_result) \<times> state" where
  "ExtractionService_extract w st pdf_content extraction_schema label =
     (let (start_time, st1) = read_clock w st in
      case CacheService_get (hashlib_sha256 w) (cache st1) pdf_content extraction_schema of
        Some cached_result \<Rightarrow>
          (let (now, st2) = read_clock w st1
           in (Inr \<lparr>extracted_data = extracted_data cached_result,
                     cost = cost cached_result,
                     processing_time = fsub now start_time,
                     cache_hit = True\<rparr>, st2))
      | None \<Rightarrow>
          (let text = extract_text_from_pdf (pdfplumber_open w) pdf_content in
           if text = None \<or> text = Some [] then
             (let (now, st2) = read_clock w st1
              in (Inr \<lparr>extracted_data = all_none extraction_schema,
                        cost = 0,
                        processing_time = fsub now start_time,
                        cache_hit = False\<rparr>, st2))
           else
             (case get_llm_service w st1 of
                (Inl e, st2) \<Rightarrow> (Inl e, st2)
              | (Inr llm, st2) \<Rightarrow>
                  (let ((data, c), st3) =
                         LLMService_extract_data w llm st2 (the text) extraction_schema label;
                       (now, st4) = read_clock w st3;
                       result = \<lparr>extracted_data = data,
                                 cost = c,
                                 processing_time = fsub now start_time,
                                 cache_hit = False\<rparr>
                   in (Inr result,
                       st4\<lparr>cache := CacheService_set (hashlib_sha256 w) (cache st4)
                                        pdf_content extraction_schema result\<rparr>)))))"

section \<open>main.py\<close>

record BatchItem =
  item_label :: string
  item_extraction_schema :: schema
  item_pdf_path :: string

record BatchExtractionResponse =
  results :: "extraction_result list"
  total_cost :: pyfloat
  total_processing_time :: pyfloat

text \<open>\<open>os.path.join(a, b)\<close> on a POSIX system.\<close>

definition os_path_join :: "string \<Rightarrow> string \<Rightarrow> string" where
  "os_path_join a b =
     (if b \<noteq> [] \<and> hd b = CHR ''/'' then b
      else if a = [] \<or> last a = CHR ''/'' then a @ b
      else a @ ''/'' @ b)"

text \<open>
  The body of the \<open>try\<close> block of one item of \<open>extract_batch\<close>: the response appended
  to the results, or the exception raised; with the running total and the state, which
  keep what was done before an exception.
\<close>

definition batch_item_try ::
    "world \<Rightarrow> state \<Rightarrow> pyfloat \<Rightarrow> BatchItem \<Rightarrow> (exn + extraction_result) \<times> pyfloat \<times> state" where
  "batch_item_try w st tc item =
     (let path1 = item_pdf_path item;
          path2 = os_path_join ''files'' (item_pdf_path item)
      in if \<not> os_path_exists w path1 \<and> \<not> os_path_exists w path2 then
           (Inl FileNotFoundError, tc, st)
         else
           (case open_read w (if \<not> os_path_exists w path1 then path2 else path1) of
              Inl e \<Rightarrow> (Inl e, tc, st)
            | Inr pdf_content \<Rightarrow>
                (case ExtractionService_extract w st pdf_content
                        (item_extraction_schema item) (Some (item_label item)) of
                   (Inl e, st') \<Rightarrow> (Inl e, tc, st')
                 | (Inr result, st') \<Rightarrow>
                     (let tc' = fadd tc (cost result)
                      in case pydantic_validate w result of
                           Inl e \<Rightarrow> (Inl e, tc', st')
                         | Inr response \<Rightarrow> (Inr response, tc', st')))))"

text \<open>
  One turn of the loop: the \<open>try\<close> block, and the \<open>except Exception\<close> clause that
  appends the record with every field \<open>None\<close> in place of a response.
\<close>

definition failed_item_response :: "BatchItem \<Rightarrow> extraction_result" where
  "failed_item_response item =
     \<lparr>extracted_data = all_none (item_extraction_schema item),
      cost = 0, processing_time = 0, cache_hit = False\<rparr>"

definition batch_step ::
    "world \<Rightarrow> extraction_result list \<times> pyfloat \<times> state \<Rightarrow> BatchItem \<Rightarrow>
     extraction_result list \<times> pyfloat \<times> state" where
  "batch_step w acc item =
     (case acc of (rs, tc, st) \<Rightarrow>
        (case batch_item_try w st tc item of
           (Inr response, tc', st') \<Rightarrow> (rs @ [response], tc', st')
         | (Inl e, tc', st') \<Rightarrow> (rs @ [failed_item_response item], tc', st')))"

fun batch_loop ::
    "world \<Rightarrow> BatchItem list \<Rightarrow> extraction_result list \<times> pyfloat \<times> state \<Rightarrow>
     extraction_result list \<times> pyfloat \<times> state" where
  "batch_loop w [] acc = acc"
| "batch_loop w (item # rest) acc = batch_loop w rest (batch_step w acc item)"

definition extract_batch ::
    "world \<Rightarrow> state \<Rightarrow> BatchItem list \<Rightarrow> BatchExtractionResponse \<times> state" where
  "extract_batch w st requests =
     (let (start_time, st1) = read_clock w st;
          (rs, tc, st2) = batch_loop w requests ([], 0, st1);
          (now, st3) = read_clock w st2
      in (\<lparr>results = rs, total_cost = tc, total_processing_time = fsub now start_time\<rparr>, st3))"

section \<open>A stubbed world\<close>

text \<open>
  Concrete surroundings for running the model: one document, an endpoint with a fixed
  answer, a clock that advances by a second at each reading. \<open>stub_sha256\<close> stands in
  for SHA-256; the theorems below hold for every hash function.
\<close>

definition stub_sha256 :: "string \<Rightarrow> string" where
  "stub_sha256 b = b"

definition invoice_schema :: schema where
  "invoice_schema = [(''invoice_number'', ''Invoice number''), (''total'', ''Total amount'')]"

definition stub_answer :: "(string \<times> string) list" where
  "stub_answer = [(''invoice_number'', ''1234''), (''total'', ''56.78'')]"

definition stub_json_loads :: "string \<Rightarrow> exn + pyvalue" where
  "stub_json_loads s =
     (if s = json_dumps_sorted stub_answer
      then Inr (PDict (map (\<lambda>(k, v). (k, PStr v)) stub_answer))
      else Inl JSONDecodeError)"

definition invoice_pages :: "exn + page list" where
  "invoice_pages = Inr [Inr (Some ''Invoice #1234, Total: $56.78'')]"

definition stub_reply :: "exn + completion" where
  "stub_reply = Inr \<lparr>usage = Some (100, 20), choices = [Some (json_dumps_sorted stub_answer)]\<rparr>"

definition stub_world :: "(exn + page list) \<Rightarrow> (exn + completion) \<Rightarrow> world" where
  "stub_world pages reply =
     \<lparr>hashlib_sha256 = stub_sha256,
      pdfplumber_open = (\<lambda>b. pages),
      os_getenv = (\<lambda>name. if name = ''OPENAI_API_KEY'' then Some ''sk-test'' else None),
      chat_completions_create = (\<lambda>n self messages. reply),
      json_loads = stub_json_loads,
      time_time = (\<lambda>n. of_nat n),
      os_path_exists = (\<lambda>path. path = ''files/invoice.pdf''),
      open_read = (\<lambda>path. Inr ''%PDF-1.4''),
      pydantic_validate = Inr\<rparr>"

definition init_state :: state where
  "init_state = \<lparr>cache = fmempty, llm_service = None, llm_calls = 0, clock_reads = 0\<rparr>"

definition whitespace_pages :: "exn + page list" where
  "whitespace_pages = Inr [Inr (Some [CHR '' '', CHR 0x0A, CHR '' ''])]"

definition empty_pages :: "exn + page list" where
  "empty_pages = Inr [Inr (Some [])]"

definition none_pages :: "exn + page list" where
  "none_pages = Inr [Inr None]"

definition network_error :: "exn + completion" where
  "network_error = Inl (LibraryError ''APIConnectionError'')"

text \<open>The same world with no API key in the environment.\<close>

definition no_key_world :: world where
  "no_key_world = (stub_world invoice_pages stub_reply)\<lparr>os_getenv := (\<lambda>name. None)\<rparr>"

text \<open>
  A batch of three items: the document, a path that does not exist, and the document
  again with the schema's fields in the other order.
\<close>

definition batch_items :: "BatchItem list" where
  "batch_items =
     [\<lparr>item_label = ''invoice'', item_extraction_schema = invoice_schema,
       item_pdf_path = ''invoice.pdf''\<rparr>,
      \<lparr>item_label = ''invoice'', item_extraction_schema = invoice_schema,
       item_pdf_path = ''missing.pdf''\<rparr>,
      \<lparr>item_label = ''receipt'', item_extraction_schema = rev invoice_schema,
       item_pdf_path = ''files/invoice.pdf''\<rparr>]"

section \<open>An invariant of the cache\<close>

text \<open>
  Two predicates for the invariant of the cache. \<open>U\<close> is a set of requests, pairs of a
  document and a schema. \<open>collision_free\<close>: two requests of \<open>U\<close> with the same cache key
  have the same field names (as they do when the hash function separates what it is
  given). \<open>cache_keys_ok\<close>: whatever the cache holds for a request of \<open>U\<close> has the field
  names of that request's schema.
\<close>

definition cache_keys_ok ::
    "(string \<Rightarrow> string) \<Rightarrow> (string \<times> schema) set \<Rightarrow> extraction_result cache \<Rightarrow> bool" where
  "cache_keys_ok H U c =
     (\<forall>(pdf, s) \<in> U. \<forall>r. CacheService_get H c pdf s = Some r
        \<longrightarrow> set (keys (extracted_data r)) = set (keys s))"

definition collision_free :: "(string \<Rightarrow> string) \<Rightarrow> (string \<times> schema) set \<Rightarrow> bool" where
  "collision_free H U =
     (\<forall>(p1, s1) \<in> U. \<forall>(p2, s2) \<in> U.
        CacheService_generate_key H p1 s1 = CacheService_generate_key H p2 s2
        \<longrightarrow> set (keys s1) = set (keys s2))"

section \<open>The rounding, checked against Python\<close>

text \<open>
  The values Python prints for \<open>Fraction(0.1)\<close>, \<open>Fraction(0.2)\<close>,
  \<open>Fraction(0.1 + 0.2)\<close>, \<open>Fraction(0.075)\<close> and \<open>Fraction(3 * 0.075)\<close>.
\<close>

lemma round_double_tenth:
  "round_double (1 / 10) = 3602879701896397 / 36028797018963968"
  by code_simp

lemma round_double_fifth:
  "round_double (2 / 10) = 3602879701896397 / 18014398509481984"
  by code_simp

lemma fadd_tenth_fifth:
  "fadd (3602879701896397 / 36028797018963968) (3602879701896397 / 18014398509481984)
     = 1351079888211149 / 4503599627370496"
  by code_simp

lemma round_double_rate:
  "round_double (75 / 1000) = 5404319552844595 / 72057594037927936"
  by code_simp

lemma fmul_three_rate:
  "fmul 3 (5404319552844595 / 72057594037927936) = 2026619832316723 / 9007199254740992"
  by code_simp

lemma float_of_int_Inr: "float_of_int n = Inr x \<Longrightarrow> x = round_double (of_int n)"
  by (auto simp add: float_of_int_def Let_def split: if_splits)

section \<open>The cache key and the cache\<close>

lemma sort_items_unique:
  fixes d1 d2 :: schema
  assumes "distinct (keys d1)" and "distinct (keys d2)" and "set d1 = set d2"
  shows "sort d1 = sort d2"
proof -
  have "distinct d1" and "distinct d2"
    using assms(1,2) by (simp_all add: keys_def distinct_map)
  with assms(3) have "mset d1 = mset d2"
    by (simp add: set_eq_iff_mset_eq_distinct)
  then show ?thesis
    by (intro properties_for_sort) simp_all
qed

text \<open>
  C2. Two schemas with the same items (field name and description) in different
  insertion order get the same cache key for the same document, under every hash
  function; so a lookup finds the same entry and a store writes the same entry for
  both.
\<close>

theorem generate_key_insertion_order:
  assumes "distinct (keys s1)" and "distinct (keys s2)" and "set s1 = set s2"
  shows "CacheService_generate_key H pdf s1 = CacheService_generate_key H pdf s2
       \<and> CacheService_get H c pdf s1 = CacheService_get H c pdf s2
       \<and> CacheService_set H c pdf s1 r = CacheService_set H c pdf s2 r"
  using sort_items_unique [OF assms]
  by (simp add: CacheService_generate_key_def CacheService_get_def CacheService_set_def
      json_dumps_sorted_def)

theorem generate_key_insertion_order_witness:
  "CacheService_generate_key stub_sha256 ''%PDF-1.4'' invoice_schema
     = CacheService_generate_key stub_sha256 ''%PDF-1.4'' (rev invoice_schema)
   \<and> CacheService_get stub_sha256 fmempty ''%PDF-1.4'' invoice_schema
     = (CacheService_get stub_sha256 fmempty ''%PDF-1.4'' (rev invoice_schema) :: nat option)
   \<and> CacheService_set stub_sha256 fmempty ''%PDF-1.4'' invoice_schema (1::nat)
     = CacheService_set stub_sha256 fmempty ''%PDF-1.4'' (rev invoice_schema) 1"
  by (rule generate_key_insertion_order) (auto simp add: invoice_schema_def keys_def)

text \<open>
  C10. A lookup right after a store, with the same document and schema, returns the
  stored result; the store adds one entry when the lookup found nothing before it, and
  none when an entry was there.
\<close>

theorem cache_set_then_get:
  "CacheService_get H (CacheService_set H c pdf s r) pdf s = Some r
   \<and> CacheService_size (CacheService_set H c pdf s r)
       = (if CacheService_get H c pdf s = None then CacheService_size c + 1
          else CacheService_size c)"
  by (auto simp add: CacheService_get_def CacheService_set_def CacheService_size_def
      fcard_finsert_if fmdom_notD fmdom_notI)

section \<open>Text extraction\<close>

lemma extract_text_from_pdf_not_empty: "extract_text_from_pdf f b \<noteq> Some []"
  by (auto simp add: extract_text_from_pdf_def split: sum.splits list.splits)

text \<open>
  C6, as the specification states it, fails: a first page whose text is a space, a
  newline and a space is returned as it is, and the extraction service goes on to call
  the remote endpoint with it.
\<close>

theorem extract_text_whitespace_counterexample:
  "extract_text_from_pdf (pdfplumber_open (stub_world whitespace_pages stub_reply)) ''%PDF-1.4''
     = Some [CHR '' '', CHR 0x0A, CHR '' '']
   \<and> llm_calls (snd (ExtractionService_extract (stub_world whitespace_pages stub_reply)
         init_state ''%PDF-1.4'' invoice_schema None)) = 1"
  by (simp add: extract_text_from_pdf_def stub_world_def whitespace_pages_def
      ExtractionService_extract_def read_clock_def init_state_def CacheService_get_def
      get_llm_service_def LLMService_init_def LLMService_extract_data_def Let_def
      split: sum.splits)

section \<open>The call of the model\<close>

text \<open>Each way the \<open>try\<close> block can fail ends in an exception of the block.\<close>

lemma remote_error_fails:
  "create n self [(''system'', system_message), (''user'', prompt)] = Inl e
   \<Longrightarrow> extract_data_try create loads self n prompt schema = Inl e"
  by (simp add: extract_data_try_def)

lemma malformed_json_fails:
  "create n self [(''system'', system_message), (''user'', prompt)] = Inr response
   \<Longrightarrow> choices response = Some content # others
   \<Longrightarrow> loads content = Inl e
   \<Longrightarrow> \<exists>e'. extract_data_try create loads self n prompt schema = Inl e'"
  by (auto simp add: extract_data_try_def Let_def split: option.splits sum.splits prod.splits)

lemma non_object_json_fails:
  "create n self [(''system'', system_message), (''user'', prompt)] = Inr response
   \<Longrightarrow> choices response = Some content # others
   \<Longrightarrow> loads content = Inr v \<Longrightarrow> (\<forall>items. v \<noteq> PDict items) \<Longrightarrow> schema \<noteq> []
   \<Longrightarrow> \<exists>e'. extract_data_try create loads self n prompt schema = Inl e'"
  by (cases v; cases schema)
     (auto simp add: extract_data_try_def Let_def keys_def
       split: option.splits sum.splits prod.splits)

text \<open>
  C4. Whenever the \<open>try\<close> block of \<open>extract_data\<close> raises (the remote call itself, the
  reading of the usage, the parsing of the content, the reading of the fields),
  \<open>extract_data\<close> returns every schema field with \<open>None\<close> and the cost \<open>0.0\<close>. It has
  no other way out: the function returns a value and never an exception.
\<close>

theorem extract_data_failure:
  assumes "extract_data_try (chat_completions_create w) (json_loads w) self (llm_calls st)
             (LLMService_build_prompt page_text schema label) schema = Inl e"
  shows "fst (LLMService_extract_data w self st page_text schema label)
           = (map (\<lambda>field. (field, PNone)) (keys schema), 0)"
  using assms by (simp add: LLMService_extract_data_def all_none_def Let_def)

theorem extract_data_failure_witness:
  "fst (LLMService_extract_data (stub_world invoice_pages network_error)
          \<lparr>client = ''sk-test'', model = ''gpt-5-mini''\<rparr> init_state
          ''Invoice #1234'' invoice_schema None)
     = (map (\<lambda>field. (field, PNone)) (keys invoice_schema), 0)"
  by (rule extract_data_failure [where e = "LibraryError ''APIConnectionError''"])
    (simp add: extract_data_try_def stub_world_def network_error_def)

text \<open>
  The cost of 100 input and 20 output tokens, operation by operation: \<open>100 * 0.075\<close> is
  \<open>7.5\<close>, \<open>20 * 0.30\<close> is \<open>6.0\<close>, and the sum of the two quotients is the float nearest
  to \<open>0.0000135\<close>.
\<close>

lemma round_double_100_20: "round_double 100 = 100" "round_double 20 = 20"
  by code_simp+

lemma float_of_int_100_20: "float_of_int 100 = Inr 100" "float_of_int 20 = Inr 20"
  by (simp_all add: float_of_int_def round_double_100_20 pow2_def)

lemma cost_100_20:
  "fadd (fdiv (fmul (round_double (of_int 100)) (round_double (75 / 1000))) 1000000)
        (fdiv (fmul (round_double (of_int 20)) (round_double (30 / 100))) 1000000)
     = round_double (135 / 10000000)"
proof -
  have r2: "round_double (30 / 100) = 5404319552844595 / 18014398509481984"
    by code_simp
  have m1: "fmul 100 (5404319552844595 / 72057594037927936) = 15 / 2"
    by code_simp
  have m2: "fmul 20 (5404319552844595 / 18014398509481984) = 6"
    by code_simp
  have d1: "fdiv (15 / 2) 1000000 = 8854437155380585 / 1180591620717411303424"
    by code_simp
  have d2: "fdiv 6 1000000 = 1770887431076117 / 295147905179352825856"
    by code_simp
  have a: "fadd (8854437155380585 / 1180591620717411303424)
                (1770887431076117 / 295147905179352825856)
             = 3984496719921263 / 295147905179352825856"
    by code_simp
  have v: "round_double (135 / 10000000) = 3984496719921263 / 295147905179352825856"
    by code_simp
  show ?thesis
    by (simp only: of_int_numeral round_double_100_20 round_double_rate r2 m1 m2 d1 d2 a v)
qed

lemma extract_data_try_cost:
  assumes "extract_data_try create loads self n prompt schema = Inr (d, c)"
    and "create n self [(''system'', system_message), (''user'', prompt)] = Inr response"
    and "usage response = Some (i, j)"
  shows "c = fadd (fdiv (fmul (round_double (of_int i)) (round_double (75 / 1000))) 1000000)
                  (fdiv (fmul (round_double (of_int j)) (round_double (30 / 100))) 1000000)"
proof -
  from assms obtain fi fj where "float_of_int i = Inr fi" and "float_of_int j = Inr fj"
    and "c = fadd (fdiv (fmul fi (round_double (75 / 1000))) 1000000)
                  (fdiv (fmul fj (round_double (30 / 100))) 1000000)"
    by (auto simp add: extract_data_try_def Let_def
        split: sum.splits list.splits option.splits)
  then show ?thesis
    by (auto dest: float_of_int_Inr)
qed

lemma stub_try:
  "extract_data_try (chat_completions_create (stub_world invoice_pages stub_reply))
      (json_loads (stub_world invoice_pages stub_reply)) self n prompt invoice_schema
     = Inr ([(''invoice_number'', PStr ''1234''), (''total'', PStr ''56.78'')],
            round_double (135 / 10000000))"
proof -
  show ?thesis
    using cost_100_20 float_of_int_100_20 round_double_100_20
    by (simp add: extract_data_try_def stub_world_def stub_reply_def stub_json_loads_def
        stub_answer_def invoice_schema_def keys_def)
qed

text \<open>
  C9. After a call of the model that succeeds, the cost \<open>extract_data\<close> reports is
  \<open>input_tokens * 0.075 / 1_000_000 + output_tokens * 0.30 / 1_000_000\<close>, evaluated in
  binary64 arithmetic in this order; for 100 input and 20 output tokens it is the
  float written \<open>0.0000135\<close>.
\<close>

theorem cost_formula:
  assumes "extract_data_try (chat_completions_create w) (json_loads w) self (llm_calls st)
             (LLMService_build_prompt page_text schema label) schema = Inr r"
    and "chat_completions_create w (llm_calls st) self
           [(''system'', system_message),
            (''user'', LLMService_build_prompt page_text schema label)] = Inr response"
    and "usage response = Some (input_tokens, output_tokens)"
  shows "snd (fst (LLMService_extract_data w self st page_text schema label))
           = fadd (fdiv (fmul (round_double (of_int input_tokens)) (round_double (75 / 1000)))
                     1000000)
                  (fdiv (fmul (round_double (of_int output_tokens)) (round_double (30 / 100)))
                     1000000)
       \<and> (input_tokens = 100 \<and> output_tokens = 20 \<longrightarrow>
            snd (fst (LLMService_extract_data w self st page_text schema label))
              = round_double (135 / 10000000))"
proof -
  have r: "fst (LLMService_extract_data w self st page_text schema label) = r"
    using assms(1) by (simp add: LLMService_extract_data_def Let_def)
  have c: "snd r
      = fadd (fdiv (fmul (round_double (of_int input_tokens)) (round_double (75 / 1000)))
                1000000)
             (fdiv (fmul (round_double (of_int output_tokens)) (round_double (30 / 100)))
                1000000)"
    using extract_data_try_cost [where create = "chat_completions_create w"
        and loads = "json_loads w" and self = self and n = "llm_calls st"
        and prompt = "LLMService_build_prompt page_text schema label" and schema = schema
        and d = "fst r" and c = "snd r" and response = response
        and i = input_tokens and j = output_tokens] assms
    by simp
  show ?thesis
    unfolding r c using cost_100_20 by auto
qed

theorem cost_formula_witness:
  "snd (fst (LLMService_extract_data (stub_world invoice_pages stub_reply)
          \<lparr>client = ''sk-test'', model = ''gpt-5-mini''\<rparr> init_state
          ''Invoice #1234, Total: $56.78'' invoice_schema None))
     = fadd (fdiv (fmul (round_double (of_int 100)) (round_double (75 / 1000))) 1000000)
            (fdiv (fmul (round_double (of_int 20)) (round_double (30 / 100))) 1000000)
   \<and> snd (fst (LLMService_extract_data (stub_world invoice_pages stub_reply)
          \<lparr>client = ''sk-test'', model = ''gpt-5-mini''\<rparr> init_state
          ''Invoice #1234, Total: $56.78'' invoice_schema None))
     = 3984496719921263 / 295147905179352825856"
proof -
  have v: "round_double (135 / 10000000) = 3984496719921263 / 295147905179352825856"
    by code_simp
  show ?thesis
    using cost_formula [where w = "stub_world invoice_pages stub_reply"
        and self = "\<lparr>client = ''sk-test'', model = ''gpt-5-mini''\<rparr>" and st = init_state
        and page_text = "''Invoice #1234, Total: $56.78''" and schema = invoice_schema
        and label = None and input_tokens = 100 and output_tokens = 20
        and response = "\<lparr>usage = Some (100, 20),
                          choices = [Some (json_dumps_sorted stub_answer)]\<rparr>"
        and r = "([(''invoice_number'', PStr ''1234''), (''total'', PStr ''56.78'')],
            round_double (135 / 10000000))"]
      stub_try v
    by (simp add: stub_world_def stub_reply_def)
qed

section \<open>The extraction service\<close>

text \<open>
  C3. When the pair is not in the cache and the text extraction gives no text,
  \<open>extract\<close> returns every schema field with \<open>None\<close>, the cost \<open>0.0\<close> and
  \<open>cache_hit = False\<close>; it leaves the cache as it was and calls no model.
\<close>

theorem extract_no_text:
  assumes "CacheService_get (hashlib_sha256 w) (cache st) pdf schema = None"
    and "extract_text_from_pdf (pdfplumber_open w) pdf = None"
  shows "(\<exists>t. fst (ExtractionService_extract w st pdf schema label)
            = Inr \<lparr>extracted_data = map (\<lambda>field. (field, PNone)) (keys schema),
                   cost = 0, processing_time = t, cache_hit = False\<rparr>)
       \<and> cache (snd (ExtractionService_extract w st pdf schema label)) = cache st
       \<and> llm_calls (snd (ExtractionService_extract w st pdf schema label)) = llm_calls st"
  using assms
  by (simp add: ExtractionService_extract_def read_clock_def all_none_def Let_def)

theorem extract_no_text_witness:
  "(\<exists>t. fst (ExtractionService_extract (stub_world (Inr []) stub_reply) init_state
              ''%PDF-1.4'' invoice_schema None)
            = Inr \<lparr>extracted_data = map (\<lambda>field. (field, PNone)) (keys invoice_schema),
                   cost = 0, processing_time = t, cache_hit = False\<rparr>)
       \<and> cache (snd (ExtractionService_extract (stub_world (Inr []) stub_reply) init_state
              ''%PDF-1.4'' invoice_schema None)) = cache init_state
       \<and> llm_calls (snd (ExtractionService_extract (stub_world (Inr []) stub_reply) init_state
              ''%PDF-1.4'' invoice_schema None)) = llm_calls init_state"
  by (rule extract_no_text)
    (simp_all add: CacheService_get_def init_state_def extract_text_from_pdf_def stub_world_def)

lemma get_llm_service_clock:
  "get_llm_service w (st\<lparr>clock_reads := n\<rparr>)
     = (fst (get_llm_service w st), (snd (get_llm_service w st))\<lparr>clock_reads := n\<rparr>)"
  by (simp add: get_llm_service_def split: option.splits sum.splits)

lemma get_llm_service_frame:
  "cache (snd (get_llm_service w st)) = cache st"
  "llm_calls (snd (get_llm_service w st)) = llm_calls st"
  "clock_reads (snd (get_llm_service w st)) = clock_reads st"
  by (simp_all add: get_llm_service_def split: option.splits sum.splits)

lemma get_llm_service_sets:
  "fst (get_llm_service w st) = Inr llm \<Longrightarrow> llm_service (snd (get_llm_service w st)) = Some llm"
  by (auto simp add: get_llm_service_def split: option.splits sum.splits)

lemma extract_data_state:
  "snd (LLMService_extract_data w llm st t s l) = st\<lparr>llm_calls := Suc (llm_calls st)\<rparr>"
  by (simp add: LLMService_extract_data_def Let_def split: sum.splits)

lemma extract_data_calls_only:
  "llm_calls st' = llm_calls st \<Longrightarrow>
   fst (LLMService_extract_data w llm st' t s l) = fst (LLMService_extract_data w llm st t s l)"
  by (simp add: LLMService_extract_data_def Let_def split: sum.splits)

lemma extract_hit:
  assumes "CacheService_get (hashlib_sha256 w) (cache st) pdf schema = Some cr"
  shows "ExtractionService_extract w st pdf schema label
    = (Inr \<lparr>extracted_data = extracted_data cr, cost = cost cr,
            processing_time = fsub (time_time w (Suc (clock_reads st))) (time_time w (clock_reads st)),
            cache_hit = True\<rparr>,
       st\<lparr>clock_reads := Suc (Suc (clock_reads st))\<rparr>)"
  using assms by (simp add: ExtractionService_extract_def read_clock_def Let_def)

lemma extract_no_service:
  assumes "CacheService_get (hashlib_sha256 w) (cache st) pdf schema = None"
    and "extract_text_from_pdf (pdfplumber_open w) pdf = Some page_text"
    and "fst (get_llm_service w st) = Inl e"
  shows "fst (ExtractionService_extract w st pdf schema label) = Inl e
       \<and> cache (snd (ExtractionService_extract w st pdf schema label)) = cache st"
  using assms extract_text_from_pdf_not_empty [of "pdfplumber_open w" pdf]
  by (simp add: ExtractionService_extract_def read_clock_def Let_def get_llm_service_clock
      get_llm_service_frame split: prod.splits)

lemma extract_llm:
  assumes "CacheService_get (hashlib_sha256 w) (cache st) pdf schema = None"
    and "extract_text_from_pdf (pdfplumber_open w) pdf = Some page_text"
    and "fst (get_llm_service w st) = Inr llm"
  shows "\<exists>st'. ExtractionService_extract w st pdf schema label
      = (Inr \<lparr>extracted_data = fst (fst (LLMService_extract_data w llm st page_text schema label)),
              cost = snd (fst (LLMService_extract_data w llm st page_text schema label)),
              processing_time = fsub (time_time w (Suc (clock_reads st))) (time_time w (clock_reads st)), cache_hit = False\<rparr>, st')
    \<and> cache st' = CacheService_set (hashlib_sha256 w) (cache st) pdf schema
         \<lparr>extracted_data = fst (fst (LLMService_extract_data w llm st page_text schema label)),
          cost = snd (fst (LLMService_extract_data w llm st page_text schema label)),
          processing_time = fsub (time_time w (Suc (clock_reads st))) (time_time w (clock_reads st)), cache_hit = False\<rparr>
    \<and> llm_calls st' = Suc (llm_calls st)
    \<and> llm_service st' = Some llm"
proof -
  let ?st1 = "st\<lparr>clock_reads := Suc (clock_reads st)\<rparr>"
  let ?st2 = "(snd (get_llm_service w st))\<lparr>clock_reads := Suc (clock_reads st)\<rparr>"
  have g: "get_llm_service w ?st1 = (Inr llm, ?st2)"
    using assms(3) by (simp add: get_llm_service_clock)
  have d: "fst (LLMService_extract_data w llm ?st2 page_text schema label)
           = fst (LLMService_extract_data w llm st page_text schema label)"
    by (rule extract_data_calls_only) (simp add: get_llm_service_frame)
  have s: "snd (LLMService_extract_data w llm ?st2 page_text schema label)
           = ?st2\<lparr>llm_calls := Suc (llm_calls st)\<rparr>"
    by (simp add: extract_data_state get_llm_service_frame)
  have ne: "page_text \<noteq> []"
    using assms(2) extract_text_from_pdf_not_empty [of "pdfplumber_open w" pdf] by auto
  show ?thesis
    using assms(1,2) ne g d s get_llm_service_sets [OF assms(3)]
    by (simp add: ExtractionService_extract_def read_clock_def Let_def get_llm_service_frame
        split_def)
qed

lemma extract_miss_no_text:
  assumes "CacheService_get (hashlib_sha256 w) (cache st) pdf schema = None"
    and "extract_text_from_pdf (pdfplumber_open w) pdf = None"
  shows "ExtractionService_extract w st pdf schema label
    = (Inr \<lparr>extracted_data = all_none schema, cost = 0,
            processing_time = fsub (time_time w (Suc (clock_reads st))) (time_time w (clock_reads st)),
            cache_hit = False\<rparr>,
       st\<lparr>clock_reads := Suc (Suc (clock_reads st))\<rparr>)"
  using assms by (simp add: ExtractionService_extract_def read_clock_def Let_def)

text \<open>
  C6, amended. When the first page's text is the empty string or \<open>None\<close>,
  \<open>extract_text_from_pdf\<close> returns \<open>None\<close>; a text that is not empty, of whitespace only
  or not, is returned unchanged. With such a text, for a pair that is not in the cache
  and with the model service at hand, \<open>extract\<close> does not take the no-text path: it
  makes the call of the model with that text and returns the data of that call.
\<close>

theorem extract_text_from_pdf_first_page:
  assumes "pdfplumber_open w pdf_content = Inr (Inr page_text # rest)"
  shows "extract_text_from_pdf (pdfplumber_open w) pdf_content
           = (if page_text = None \<or> page_text = Some [] then None else page_text)
       \<and> (page_text \<noteq> None \<and> page_text \<noteq> Some []
            \<and> CacheService_get (hashlib_sha256 w) (cache st) pdf_content schema = None
            \<and> fst (get_llm_service w st) = Inr llm
          \<longrightarrow> llm_calls (snd (ExtractionService_extract w st pdf_content schema label))
                = Suc (llm_calls st)
            \<and> map_sum id extracted_data
                  (fst (ExtractionService_extract w st pdf_content schema label))
                = Inr (fst (fst (LLMService_extract_data w llm st (the page_text) schema
                                   label))))"
proof (intro conjI impI)
  show "extract_text_from_pdf (pdfplumber_open w) pdf_content
          = (if page_text = None \<or> page_text = Some [] then None else page_text)"
    using assms by (simp add: extract_text_from_pdf_def)
next
  assume a: "page_text \<noteq> None \<and> page_text \<noteq> Some []
            \<and> CacheService_get (hashlib_sha256 w) (cache st) pdf_content schema = None
            \<and> fst (get_llm_service w st) = Inr llm"
  then have t: "extract_text_from_pdf (pdfplumber_open w) pdf_content = Some (the page_text)"
    using assms by (auto simp add: extract_text_from_pdf_def)
  from a have m: "CacheService_get (hashlib_sha256 w) (cache st) pdf_content schema = None"
    and g: "fst (get_llm_service w st) = Inr llm"
    by simp_all
  from extract_llm [OF m t g, of label] obtain st' where
    "ExtractionService_extract w st pdf_content schema label
       = (Inr \<lparr>extracted_data =
                 fst (fst (LLMService_extract_data w llm st (the page_text) schema label)),
               cost = snd (fst (LLMService_extract_data w llm st (the page_text) schema label)),
               processing_time =
                 fsub (time_time w (Suc (clock_reads st))) (time_time w (clock_reads st)),
               cache_hit = False\<rparr>, st')"
    and "llm_calls st' = Suc (llm_calls st)"
    by blast
  then show "llm_calls (snd (ExtractionService_extract w st pdf_content schema label))
                = Suc (llm_calls st)"
    and "map_sum id extracted_data
                  (fst (ExtractionService_extract w st pdf_content schema label))
                = Inr (fst (fst (LLMService_extract_data w llm st (the page_text) schema
                                   label)))"
    by simp_all
qed

theorem extract_text_from_pdf_first_page_witness:
  "extract_text_from_pdf (pdfplumber_open (stub_world empty_pages stub_reply)) ''%PDF-1.4''
     = None
   \<and> extract_text_from_pdf (pdfplumber_open (stub_world none_pages stub_reply)) ''%PDF-1.4''
     = None
   \<and> extract_text_from_pdf (pdfplumber_open (stub_world whitespace_pages stub_reply))
       ''%PDF-1.4'' = Some [CHR '' '', CHR 0x0A, CHR '' '']
   \<and> llm_calls (snd (ExtractionService_extract (stub_world whitespace_pages stub_reply)
         init_state ''%PDF-1.4'' invoice_schema None)) = Suc (llm_calls init_state)
   \<and> map_sum id extracted_data
        (fst (ExtractionService_extract (stub_world whitespace_pages stub_reply)
           init_state ''%PDF-1.4'' invoice_schema None))
      = Inr (fst (fst (LLMService_extract_data (stub_world whitespace_pages stub_reply)
                \<lparr>client = ''sk-test'', model = ''gpt-5-mini''\<rparr> init_state
                [CHR '' '', CHR 0x0A, CHR '' ''] invoice_schema None)))"
proof -
  have e: "pdfplumber_open (stub_world empty_pages stub_reply) ''%PDF-1.4''
             = Inr (Inr (Some []) # [])"
    by (simp add: stub_world_def empty_pages_def)
  have n: "pdfplumber_open (stub_world none_pages stub_reply) ''%PDF-1.4''
             = Inr (Inr None # [])"
    by (simp add: stub_world_def none_pages_def)
  have b: "pdfplumber_open (stub_world whitespace_pages stub_reply) ''%PDF-1.4''
             = Inr (Inr (Some [CHR '' '', CHR 0x0A, CHR '' '']) # [])"
    by (simp add: stub_world_def whitespace_pages_def)
  have m: "CacheService_get (hashlib_sha256 (stub_world whitespace_pages stub_reply))
             (cache init_state) ''%PDF-1.4'' invoice_schema = None"
    by (simp add: CacheService_get_def init_state_def)
  have g: "fst (get_llm_service (stub_world whitespace_pages stub_reply) init_state)
             = Inr \<lparr>client = ''sk-test'', model = ''gpt-5-mini''\<rparr>"
    by (simp add: get_llm_service_def LLMService_init_def stub_world_def init_state_def)
  from extract_text_from_pdf_first_page [OF e]
  have 1: "extract_text_from_pdf (pdfplumber_open (stub_world empty_pages stub_reply))
             ''%PDF-1.4'' = None"
    by simp
  from extract_text_from_pdf_first_page [OF n]
  have 2: "extract_text_from_pdf (pdfplumber_open (stub_world none_pages stub_reply))
             ''%PDF-1.4'' = None"
    by simp
  from extract_text_from_pdf_first_page [OF b, where st = init_state
      and schema = invoice_schema and label = None
      and llm = "\<lparr>client = ''sk-test'', model = ''gpt-5-mini''\<rparr>"] m g
  have 3: "extract_text_from_pdf (pdfplumber_open (stub_world whitespace_pages stub_reply))
       ''%PDF-1.4'' = Some [CHR '' '', CHR 0x0A, CHR '' '']
   \<and> llm_calls (snd (ExtractionService_extract (stub_world whitespace_pages stub_reply)
         init_state ''%PDF-1.4'' invoice_schema None)) = Suc (llm_calls init_state)
   \<and> map_sum id extracted_data
        (fst (ExtractionService_extract (stub_world whitespace_pages stub_reply)
           init_state ''%PDF-1.4'' invoice_schema None))
      = Inr (fst (fst (LLMService_extract_data (stub_world whitespace_pages stub_reply)
                \<lparr>client = ''sk-test'', model = ''gpt-5-mini''\<rparr> init_state
                [CHR '' '', CHR 0x0A, CHR '' ''] invoice_schema None)))"
    by simp
  from 1 2 3 show ?thesis by simp
qed

text \<open>
  C1, as the specification states it, fails in three ways. A document with no pages gives
  \<open>cache_hit = False\<close> on the second call as on the first, since nothing was stored.
  With no API key the first call raises \<open>ValueError\<close>, and so does the second. And when
  the pair is in the cache already, the first of two calls is a hit.
\<close>

lemma stub_first_call_cached:
  "\<exists>r. CacheService_get stub_sha256
          (cache (snd (ExtractionService_extract (stub_world invoice_pages stub_reply) init_state
                   ''%PDF-1.4'' invoice_schema None)))
          ''%PDF-1.4'' invoice_schema = Some r"
proof -
  have "\<exists>st'. ExtractionService_extract (stub_world invoice_pages stub_reply) init_state
          ''%PDF-1.4'' invoice_schema None
      = (Inr \<lparr>extracted_data = fst (fst (LLMService_extract_data (stub_world invoice_pages stub_reply)
                 \<lparr>client = ''sk-test'', model = ''gpt-5-mini''\<rparr> init_state
                 ''Invoice #1234, Total: $56.78'' invoice_schema None)),
              cost = snd (fst (LLMService_extract_data (stub_world invoice_pages stub_reply)
                 \<lparr>client = ''sk-test'', model = ''gpt-5-mini''\<rparr> init_state
                 ''Invoice #1234, Total: $56.78'' invoice_schema None)),
              processing_time = fsub (time_time (stub_world invoice_pages stub_reply) (Suc (clock_reads init_state)))
                  (time_time (stub_world invoice_pages stub_reply) (clock_reads init_state)), cache_hit = False\<rparr>, st')
    \<and> cache st' = CacheService_set (hashlib_sha256 (stub_world invoice_pages stub_reply))
         (cache init_state) ''%PDF-1.4'' invoice_schema
         \<lparr>extracted_data = fst (fst (LLMService_extract_data (stub_world invoice_pages stub_reply)
                 \<lparr>client = ''sk-test'', model = ''gpt-5-mini''\<rparr> init_state
                 ''Invoice #1234, Total: $56.78'' invoice_schema None)),
          cost = snd (fst (LLMService_extract_data (stub_world invoice_pages stub_reply)
                 \<lparr>client = ''sk-test'', model = ''gpt-5-mini''\<rparr> init_state
                 ''Invoice #1234, Total: $56.78'' invoice_schema None)),
          processing_time = fsub (time_time (stub_world invoice_pages stub_reply) (Suc (clock_reads init_state)))
                  (time_time (stub_world invoice_pages stub_reply) (clock_reads init_state)), cache_hit = False\<rparr>
    \<and> llm_calls st' = Suc (llm_calls init_state)
    \<and> llm_service st' = Some \<lparr>client = ''sk-test'', model = ''gpt-5-mini''\<rparr>"
    by (rule extract_llm)
      (simp_all add: CacheService_get_def init_state_def extract_text_from_pdf_def
        stub_world_def invoice_pages_def get_llm_service_def LLMService_init_def)
  then obtain st' r where "ExtractionService_extract (stub_world invoice_pages stub_reply) init_state
          ''%PDF-1.4'' invoice_schema None = (Inr r, st')"
    and "cache st' = CacheService_set (hashlib_sha256 (stub_world invoice_pages stub_reply))
         (cache init_state) ''%PDF-1.4'' invoice_schema r"
    by blast
  then show ?thesis
    by (simp add: CacheService_get_def CacheService_set_def stub_world_def)
qed

theorem extract_twice_counterexample:
  "map_sum id cache_hit
     (fst (ExtractionService_extract (stub_world (Inr []) stub_reply)
        (snd (ExtractionService_extract (stub_world (Inr []) stub_reply) init_state
                ''%PDF-1.4'' invoice_schema None))
        ''%PDF-1.4'' invoice_schema None)) = Inr False
   \<and> fst (ExtractionService_extract no_key_world init_state ''%PDF-1.4'' invoice_schema None)
       = Inl ValueError
   \<and> fst (ExtractionService_extract no_key_world
        (snd (ExtractionService_extract no_key_world init_state ''%PDF-1.4'' invoice_schema None))
        ''%PDF-1.4'' invoice_schema None) = Inl ValueError
   \<and> map_sum id cache_hit
     (fst (ExtractionService_extract (stub_world invoice_pages stub_reply)
        (snd (ExtractionService_extract (stub_world invoice_pages stub_reply) init_state
                ''%PDF-1.4'' invoice_schema None))
        ''%PDF-1.4'' invoice_schema None)) = Inr True"
proof -
  have a: "map_sum id cache_hit
     (fst (ExtractionService_extract (stub_world (Inr []) stub_reply)
        (snd (ExtractionService_extract (stub_world (Inr []) stub_reply) init_state
                ''%PDF-1.4'' invoice_schema None))
        ''%PDF-1.4'' invoice_schema None)) = Inr False"
    by (simp add: extract_miss_no_text CacheService_get_def init_state_def
        extract_text_from_pdf_def stub_world_def)
  have b: "ExtractionService_extract no_key_world init_state ''%PDF-1.4'' invoice_schema None
       = (Inl ValueError, init_state\<lparr>clock_reads := 1\<rparr>)"
    by (simp add: ExtractionService_extract_def read_clock_def CacheService_get_def
        init_state_def extract_text_from_pdf_def no_key_world_def stub_world_def
        invoice_pages_def get_llm_service_def LLMService_init_def Let_def)
  have c: "fst (ExtractionService_extract no_key_world (init_state\<lparr>clock_reads := 1\<rparr>)
        ''%PDF-1.4'' invoice_schema None) = Inl ValueError"
    by (simp add: ExtractionService_extract_def read_clock_def CacheService_get_def
        init_state_def extract_text_from_pdf_def no_key_world_def stub_world_def
        invoice_pages_def get_llm_service_def LLMService_init_def Let_def)
  obtain r where "CacheService_get (hashlib_sha256 (stub_world invoice_pages stub_reply))
          (cache (snd (ExtractionService_extract (stub_world invoice_pages stub_reply) init_state
                   ''%PDF-1.4'' invoice_schema None)))
          ''%PDF-1.4'' invoice_schema = Some r"
    using stub_first_call_cached by (auto simp add: stub_world_def)
  from extract_hit [OF this] have d: "map_sum id cache_hit
     (fst (ExtractionService_extract (stub_world invoice_pages stub_reply)
        (snd (ExtractionService_extract (stub_world invoice_pages stub_reply) init_state
                ''%PDF-1.4'' invoice_schema None))
        ''%PDF-1.4'' invoice_schema None)) = Inr True"
    by simp
  show ?thesis
    using a b c d by simp
qed

text \<open>
  C1, amended. For a pair that is not in the cache, whose first page gives a text, and
  with the model service at hand (created before, or creatable from the API key), two
  calls of \<open>extract\<close> in sequence return \<open>cache_hit = False\<close> and then
  \<open>cache_hit = True\<close>, with the same \<open>extracted_data\<close> and the same \<open>cost\<close>. The label
  of the second call may differ from the first: it is no part of the key.
\<close>

theorem extract_twice:
  assumes "CacheService_get (hashlib_sha256 w) (cache st) pdf schema = None"
    and "extract_text_from_pdf (pdfplumber_open w) pdf = Some page_text"
    and "fst (get_llm_service w st) = Inr llm"
  shows "\<exists>r1 r2.
      fst (ExtractionService_extract w st pdf schema label) = Inr r1
    \<and> fst (ExtractionService_extract w (snd (ExtractionService_extract w st pdf schema label))
            pdf schema label2) = Inr r2
    \<and> \<not> cache_hit r1 \<and> cache_hit r2
    \<and> extracted_data r2 = extracted_data r1 \<and> cost r2 = cost r1"
proof -
  from extract_llm [OF assms, of label] obtain st' r1 where
    1: "ExtractionService_extract w st pdf schema label = (Inr r1, st')"
    and r1: "r1 = \<lparr>extracted_data = fst (fst (LLMService_extract_data w llm st page_text schema label)),
              cost = snd (fst (LLMService_extract_data w llm st page_text schema label)),
              processing_time = fsub (time_time w (Suc (clock_reads st))) (time_time w (clock_reads st)), cache_hit = False\<rparr>"
    and c: "cache st' = CacheService_set (hashlib_sha256 w) (cache st) pdf schema r1"
    by blast
  have "CacheService_get (hashlib_sha256 w) (cache st') pdf schema = Some r1"
    unfolding c by (simp add: CacheService_get_def CacheService_set_def)
  from extract_hit [OF this, of label2] 1 r1 show ?thesis
    by simp
qed

theorem extract_twice_witness:
  "\<exists>r1 r2.
      fst (ExtractionService_extract (stub_world invoice_pages stub_reply) init_state
             ''%PDF-1.4'' invoice_schema None) = Inr r1
    \<and> fst (ExtractionService_extract (stub_world invoice_pages stub_reply)
             (snd (ExtractionService_extract (stub_world invoice_pages stub_reply) init_state
                     ''%PDF-1.4'' invoice_schema None))
            ''%PDF-1.4'' invoice_schema (Some ''invoice'')) = Inr r2
    \<and> \<not> cache_hit r1 \<and> cache_hit r2
    \<and> extracted_data r2 = extracted_data r1 \<and> cost r2 = cost r1"
  by (rule extract_twice [where page_text = "''Invoice #1234, Total: $56.78''"
        and llm = "\<lparr>client = ''sk-test'', model = ''gpt-5-mini''\<rparr>"])
    (simp_all add: CacheService_get_def init_state_def extract_text_from_pdf_def
      stub_world_def invoice_pages_def get_llm_service_def LLMService_init_def)

text \<open>
  C5. For a pair that is not in the cache and whose first page gives a text, when the
  call of the model fails the result with every field \<open>None\<close> and cost \<open>0.0\<close> is stored
  under the pair's key; the next call with the same pair is a cache hit with the same
  data and cost, and makes no call of the model.
\<close>

theorem failed_call_cached:
  assumes "CacheService_get (hashlib_sha256 w) (cache st) pdf schema = None"
    and "extract_text_from_pdf (pdfplumber_open w) pdf = Some page_text"
    and "fst (get_llm_service w st) = Inr llm"
    and "extract_data_try (chat_completions_create w) (json_loads w) llm (llm_calls st)
           (LLMService_build_prompt page_text schema label) schema = Inl e"
  shows "\<exists>r1 r2.
      fst (ExtractionService_extract w st pdf schema label) = Inr r1
    \<and> extracted_data r1 = map (\<lambda>field. (field, PNone)) (keys schema)
    \<and> cost r1 = 0 \<and> \<not> cache_hit r1
    \<and> CacheService_get (hashlib_sha256 w)
         (cache (snd (ExtractionService_extract w st pdf schema label))) pdf schema = Some r1
    \<and> fst (ExtractionService_extract w (snd (ExtractionService_extract w st pdf schema label))
            pdf schema label2) = Inr r2
    \<and> cache_hit r2
    \<and> extracted_data r2 = map (\<lambda>field. (field, PNone)) (keys schema)
    \<and> cost r2 = 0
    \<and> llm_calls (snd (ExtractionService_extract w (snd (ExtractionService_extract w st pdf schema label))
            pdf schema label2))
       = llm_calls (snd (ExtractionService_extract w st pdf schema label))"
proof -
  have f: "fst (LLMService_extract_data w llm st page_text schema label)
             = (map (\<lambda>field. (field, PNone)) (keys schema), 0)"
    using assms(4) by (simp add: LLMService_extract_data_def all_none_def Let_def)
  from extract_llm [OF assms(1-3), of label] obtain st' r1 where
    1: "ExtractionService_extract w st pdf schema label = (Inr r1, st')"
    and r1: "r1 = \<lparr>extracted_data = map (\<lambda>field. (field, PNone)) (keys schema),
              cost = 0, processing_time = fsub (time_time w (Suc (clock_reads st))) (time_time w (clock_reads st)), cache_hit = False\<rparr>"
    and c: "cache st' = CacheService_set (hashlib_sha256 w) (cache st) pdf schema r1"
    unfolding f by auto
  have g: "CacheService_get (hashlib_sha256 w) (cache st') pdf schema = Some r1"
    unfolding c by (simp add: CacheService_get_def CacheService_set_def)
  from extract_hit [OF g, of label2] 1 r1 g show ?thesis
    by simp
qed

theorem failed_call_cached_witness:
  "\<exists>r1 r2.
      fst (ExtractionService_extract (stub_world invoice_pages network_error) init_state
             ''%PDF-1.4'' invoice_schema None) = Inr r1
    \<and> extracted_data r1 = map (\<lambda>field. (field, PNone)) (keys invoice_schema)
    \<and> cost r1 = 0 \<and> \<not> cache_hit r1
    \<and> CacheService_get (hashlib_sha256 (stub_world invoice_pages network_error))
         (cache (snd (ExtractionService_extract (stub_world invoice_pages network_error)
            init_state ''%PDF-1.4'' invoice_schema None))) ''%PDF-1.4'' invoice_schema = Some r1
    \<and> fst (ExtractionService_extract (stub_world invoice_pages network_error)
            (snd (ExtractionService_extract (stub_world invoice_pages network_error)
               init_state ''%PDF-1.4'' invoice_schema None))
            ''%PDF-1.4'' invoice_schema None) = Inr r2
    \<and> cache_hit r2
    \<and> extracted_data r2 = map (\<lambda>field. (field, PNone)) (keys invoice_schema)
    \<and> cost r2 = 0
    \<and> llm_calls (snd (ExtractionService_extract (stub_world invoice_pages network_error)
            (snd (ExtractionService_extract (stub_world invoice_pages network_error)
               init_state ''%PDF-1.4'' invoice_schema None))
            ''%PDF-1.4'' invoice_schema None))
       = llm_calls (snd (ExtractionService_extract (stub_world invoice_pages network_error)
               init_state ''%PDF-1.4'' invoice_schema None))"
  by (rule failed_call_cached [where page_text = "''Invoice #1234, Total: $56.78''"
        and llm = "\<lparr>client = ''sk-test'', model = ''gpt-5-mini''\<rparr>"
        and e = "LibraryError ''APIConnectionError''"])
    (simp_all add: CacheService_get_def init_state_def extract_text_from_pdf_def
      stub_world_def invoice_pages_def get_llm_service_def LLMService_init_def
      extract_data_try_def network_error_def)

section \<open>The fields of a result\<close>

lemma keys_all_none: "keys (all_none s) = keys s"
  by (simp add: all_none_def keys_def comp_def)

lemma collect_fields_keys: "collect_fields v ks = Inr d \<Longrightarrow> keys d = ks"
  by (induction ks arbitrary: d) (auto simp add: keys_def split: sum.splits)

lemma collect_fields_dict:
  "collect_fields (PDict items) ks
     = Inr (map (\<lambda>k. (k, case map_of items k of None \<Rightarrow> PNone | Some v \<Rightarrow> v)) ks)"
  by (induction ks) simp_all

lemma extract_data_try_keys:
  "extract_data_try create loads self n prompt s = Inr (d, c) \<Longrightarrow> keys d = keys s"
  by (auto simp add: extract_data_try_def Let_def dest: collect_fields_keys
      split: sum.splits list.splits option.splits)

lemma extract_data_keys:
  "keys (fst (fst (LLMService_extract_data w llm st t s l))) = keys s"
  by (auto simp add: LLMService_extract_data_def Let_def keys_all_none
      dest: extract_data_try_keys split: sum.splits)

lemma cache_keys_ok_empty: "cache_keys_ok H U fmempty"
  by (simp add: cache_keys_ok_def CacheService_get_def)

lemma collision_freeD:
  "collision_free H U \<Longrightarrow> (p1, s1) \<in> U \<Longrightarrow> (p2, s2) \<in> U
   \<Longrightarrow> CacheService_generate_key H p1 s1 = CacheService_generate_key H p2 s2
   \<Longrightarrow> set (keys s1) = set (keys s2)"
  unfolding collision_free_def by fast

lemma cache_keys_okD:
  "cache_keys_ok H U c \<Longrightarrow> (pdf, s) \<in> U \<Longrightarrow> CacheService_get H c pdf s = Some r
   \<Longrightarrow> set (keys (extracted_data r)) = set (keys s)"
  unfolding cache_keys_ok_def by fast

lemma cache_keys_ok_set:
  assumes "collision_free H U" and "cache_keys_ok H U c" and "(pdf, s) \<in> U"
    and "set (keys (extracted_data r)) = set (keys s)"
  shows "cache_keys_ok H U (CacheService_set H c pdf s r)"
  unfolding cache_keys_ok_def
proof (intro ballI, clarify)
  fix p' s' r'
  assume u: "(p', s') \<in> U"
    and g: "CacheService_get H (CacheService_set H c pdf s r) p' s' = Some r'"
  show "set (keys (extracted_data r')) = set (keys s')"
  proof (cases "CacheService_generate_key H p' s' = CacheService_generate_key H pdf s")
    case True
    with g have "r' = r"
      by (simp add: CacheService_get_def CacheService_set_def)
    moreover have "set (keys s') = set (keys s)"
      by (rule collision_freeD [OF assms(1) u assms(3) True])
    ultimately show ?thesis
      using assms(4) by simp
  next
    case False
    with g have "CacheService_get H c p' s' = Some r'"
      by (simp add: CacheService_get_def CacheService_set_def)
    then show ?thesis
      by (rule cache_keys_okD [OF assms(2) u])
  qed
qed

lemma extract_raises_cache:
  assumes "fst (ExtractionService_extract w st pdf schema label) = Inl e"
  shows "cache (snd (ExtractionService_extract w st pdf schema label)) = cache st"
proof (cases "CacheService_get (hashlib_sha256 w) (cache st) pdf schema")
  case (Some cr)
  from extract_hit [OF this, of label] assms show ?thesis by simp
next
  case None
  show ?thesis
  proof (cases "extract_text_from_pdf (pdfplumber_open w) pdf")
    case nt: None
    from extract_miss_no_text [OF None nt, of label] assms show ?thesis by simp
  next
    case (Some page_text)
    show ?thesis
    proof (cases "fst (get_llm_service w st)")
      case (Inl e')
      from extract_no_service [OF None Some Inl, of label] show ?thesis by simp
    next
      case (Inr llm)
      from extract_llm [OF None Some Inr, of label] assms show ?thesis by auto
    qed
  qed
qed

text \<open>
  C8. On every path through \<open>extract\<close> that returns a result, the field names of
  \<open>extracted_data\<close> are those of the schema. The path through the cache rests on what
  earlier calls stored: the theorem is the step of an invariant, which holds of the empty
  cache (\<open>cache_keys_ok_empty\<close>), is kept by a call that raises (\<open>extract_raises_cache\<close>),
  and assumes that no two requests made share a key while differing in their field names.
\<close>

theorem extract_key_set:
  assumes "collision_free (hashlib_sha256 w) U"
    and "cache_keys_ok (hashlib_sha256 w) U (cache st)"
    and "(pdf, schema) \<in> U"
    and "fst (ExtractionService_extract w st pdf schema label) = Inr r"
  shows "set (keys (extracted_data r)) = set (keys schema)
       \<and> cache_keys_ok (hashlib_sha256 w) U
           (cache (snd (ExtractionService_extract w st pdf schema label)))"
proof (cases "CacheService_get (hashlib_sha256 w) (cache st) pdf schema")
  case (Some cr)
  have k: "set (keys (extracted_data cr)) = set (keys schema)"
    by (rule cache_keys_okD [OF assms(2,3) Some])
  have "extracted_data r = extracted_data cr"
    using assms(4) unfolding extract_hit [OF Some, of label] by auto
  with k assms(2) show ?thesis
    unfolding extract_hit [OF Some, of label] by simp
next
  case None
  show ?thesis
  proof (cases "extract_text_from_pdf (pdfplumber_open w) pdf")
    case nt: None
    from extract_miss_no_text [OF None nt, of label] assms(2,4) show ?thesis
      by (auto simp add: keys_all_none)
  next
    case (Some page_text)
    show ?thesis
    proof (cases "fst (get_llm_service w st)")
      case (Inl e')
      from extract_no_service [OF None Some Inl, of label] assms(4) show ?thesis by simp
    next
      case (Inr llm)
      from extract_llm [OF None Some Inr, of label] obtain st' where
        1: "ExtractionService_extract w st pdf schema label
              = (Inr \<lparr>extracted_data = fst (fst (LLMService_extract_data w llm st page_text schema label)),
                      cost = snd (fst (LLMService_extract_data w llm st page_text schema label)),
                      processing_time = fsub (time_time w (Suc (clock_reads st))) (time_time w (clock_reads st)), cache_hit = False\<rparr>, st')"
        and c: "cache st' = CacheService_set (hashlib_sha256 w) (cache st) pdf schema
                 \<lparr>extracted_data = fst (fst (LLMService_extract_data w llm st page_text schema label)),
                  cost = snd (fst (LLMService_extract_data w llm st page_text schema label)),
                  processing_time = fsub (time_time w (Suc (clock_reads st))) (time_time w (clock_reads st)), cache_hit = False\<rparr>"
        by blast
      from 1 assms(4) have k: "set (keys (extracted_data r)) = set (keys schema)"
        by (auto simp add: extract_data_keys)
      have "cache_keys_ok (hashlib_sha256 w) U (cache st')"
        unfolding c by (rule cache_keys_ok_set [OF assms(1-3)]) (simp add: extract_data_keys)
      with 1 k show ?thesis by simp
    qed
  qed
qed

theorem extract_key_set_witness:
  "set (keys (extracted_data
      \<lparr>extracted_data = [(''invoice_number'', PStr ''1234''), (''total'', PStr ''56.78'')],
       cost = round_double (135 / 10000000), processing_time = fsub 1 0, cache_hit = False\<rparr>))
     = set (keys invoice_schema)
   \<and> cache_keys_ok (hashlib_sha256 (stub_world invoice_pages stub_reply))
       {(''%PDF-1.4'', invoice_schema), (''%PDF-1.4'', rev invoice_schema)}
       (cache (snd (ExtractionService_extract (stub_world invoice_pages stub_reply) init_state
          ''%PDF-1.4'' invoice_schema None)))"
proof (rule extract_key_set)
  show "collision_free (hashlib_sha256 (stub_world invoice_pages stub_reply))
          {(''%PDF-1.4'', invoice_schema), (''%PDF-1.4'', rev invoice_schema)}"
    by (auto simp add: collision_free_def keys_def)
  show "cache_keys_ok (hashlib_sha256 (stub_world invoice_pages stub_reply))
          {(''%PDF-1.4'', invoice_schema), (''%PDF-1.4'', rev invoice_schema)} (cache init_state)"
    by (simp add: init_state_def cache_keys_ok_empty)
  show "(''%PDF-1.4'', invoice_schema)
          \<in> {(''%PDF-1.4'', invoice_schema), (''%PDF-1.4'', rev invoice_schema)}"
    by simp
  have "fst (LLMService_extract_data (stub_world invoice_pages stub_reply)
          \<lparr>client = ''sk-test'', model = ''gpt-5-mini''\<rparr> init_state
          ''Invoice #1234, Total: $56.78'' invoice_schema None)
        = ([(''invoice_number'', PStr ''1234''), (''total'', PStr ''56.78'')],
            round_double (135 / 10000000))"
    by (simp add: LLMService_extract_data_def Let_def stub_try)
  moreover have "\<exists>st'. ExtractionService_extract (stub_world invoice_pages stub_reply) init_state
      ''%PDF-1.4'' invoice_schema None
    = (Inr \<lparr>extracted_data = fst (fst (LLMService_extract_data (stub_world invoice_pages stub_reply)
               \<lparr>client = ''sk-test'', model = ''gpt-5-mini''\<rparr> init_state
               ''Invoice #1234, Total: $56.78'' invoice_schema None)),
             cost = snd (fst (LLMService_extract_data (stub_world invoice_pages stub_reply)
               \<lparr>client = ''sk-test'', model = ''gpt-5-mini''\<rparr> init_state
               ''Invoice #1234, Total: $56.78'' invoice_schema None)),
             processing_time = fsub (time_time (stub_world invoice_pages stub_reply)
                 (Suc (clock_reads init_state)))
               (time_time (stub_world invoice_pages stub_reply) (clock_reads init_state)),
             cache_hit = False\<rparr>, st')"
    using extract_llm [where w = "stub_world invoice_pages stub_reply" and st = init_state
        and pdf = "''%PDF-1.4''" and schema = invoice_schema and label = None
        and page_text = "''Invoice #1234, Total: $56.78''"
        and llm = "\<lparr>client = ''sk-test'', model = ''gpt-5-mini''\<rparr>"]
    by (auto simp add: CacheService_get_def init_state_def extract_text_from_pdf_def
        stub_world_def invoice_pages_def get_llm_service_def LLMService_init_def)
  ultimately show "fst (ExtractionService_extract (stub_world invoice_pages stub_reply)
          init_state ''%PDF-1.4'' invoice_schema None)
        = Inr \<lparr>extracted_data = [(''invoice_number'', PStr ''1234''), (''total'', PStr ''56.78'')],
       cost = round_double (135 / 10000000), processing_time = fsub 1 0, cache_hit = False\<rparr>"
    by (auto simp add: stub_world_def init_state_def)
qed

section \<open>The batch endpoint\<close>

lemma batch_loop_append:
  "batch_loop w (xs @ ys) acc = batch_loop w ys (batch_loop w xs acc)"
  by (induction xs arbitrary: acc) simp_all

lemma batch_step_results:
  "fst (batch_step w acc item)
     = fst acc @ [case fst (batch_item_try w (snd (snd acc)) (fst (snd acc)) item) of
                    Inr response \<Rightarrow> response
                  | Inl e \<Rightarrow> failed_item_response item]"
  by (simp add: batch_step_def split: prod.splits sum.splits)

lemma batch_loop_results:
  "\<exists>zs. fst (batch_loop w ys acc) = fst acc @ zs \<and> length zs = length ys"
proof (induction ys arbitrary: acc)
  case Nil
  then show ?case by simp
next
  case (Cons y ys)
  from Cons.IH [of "batch_step w acc y"] obtain zs where
    "fst (batch_loop w ys (batch_step w acc y)) = fst (batch_step w acc y) @ zs"
    and "length zs = length ys"
    by blast
  then show ?case
    by (simp add: batch_step_results)
qed

lemma batch_loop_length:
  "length (fst (batch_loop w ys acc)) = length (fst acc) + length ys"
  using batch_loop_results [of w ys acc] by auto

lemma batch_loop_nth:
  assumes "i < length requests"
  shows "fst (batch_loop w requests ([], tc, st)) ! i
     = (case fst (batch_item_try w
                (snd (snd (batch_loop w (take i requests) ([], tc, st))))
                (fst (snd (batch_loop w (take i requests) ([], tc, st))))
                (requests ! i)) of
          Inr response \<Rightarrow> response
        | Inl e \<Rightarrow> failed_item_response (requests ! i))"
proof -
  let ?A = "batch_loop w (take i requests) ([], tc, st)"
  have split: "requests = take i requests @ [requests ! i] @ drop (Suc i) requests"
    using assms by (simp add: id_take_nth_drop)
  have "batch_loop w requests ([], tc, st)
          = batch_loop w (drop (Suc i) requests) (batch_step w ?A (requests ! i))"
    by (subst split) (simp only: batch_loop_append batch_loop.simps)
  moreover obtain zs where
    "fst (batch_loop w (drop (Suc i) requests) (batch_step w ?A (requests ! i)))
       = fst (batch_step w ?A (requests ! i)) @ zs"
    using batch_loop_results by blast
  moreover have "length (fst ?A) = i"
    using assms by (simp add: batch_loop_length)
  ultimately show ?thesis
    by (simp add: batch_step_results nth_append)
qed

text \<open>
  C7. \<open>extract_batch\<close> returns as many results as there are items, in the order of the
  items: the result at position \<open>i\<close> is the response of item \<open>i\<close>, processed in the
  state the items before it left behind, or, when processing that item raised, the
  record with every field of its schema \<open>None\<close>, cost \<open>0.0\<close>, time \<open>0.0\<close> and
  \<open>cache_hit = False\<close>. An exception ends the item, never the loop.
\<close>

theorem extract_batch_results:
  "length (results (fst (extract_batch w st requests))) = length requests
   \<and> results (fst (extract_batch w st requests))
     = map (\<lambda>i.
         case fst (batch_item_try w
                (snd (snd (batch_loop w (take i requests) ([], 0, snd (read_clock w st)))))
                (fst (snd (batch_loop w (take i requests) ([], 0, snd (read_clock w st)))))
                (requests ! i)) of
           Inr response \<Rightarrow> response
         | Inl e \<Rightarrow>
             \<lparr>extracted_data =
                map (\<lambda>field. (field, PNone)) (keys (item_extraction_schema (requests ! i))),
              cost = 0, processing_time = 0, cache_hit = False\<rparr>)
       [0..<length requests]"
proof -
  have r: "results (fst (extract_batch w st requests))
             = fst (batch_loop w requests ([], 0, snd (read_clock w st)))"
    by (simp add: extract_batch_def split_def Let_def)
  show ?thesis
    unfolding r
    by (auto simp add: batch_loop_length batch_loop_nth failed_item_response_def all_none_def
        intro!: nth_equalityI split: sum.splits)
qed

theorem extract_batch_results_witness:
  "length (results (fst (extract_batch (stub_world invoice_pages stub_reply) init_state
      batch_items))) = 3
   \<and> results (fst (extract_batch (stub_world invoice_pages stub_reply) init_state
      batch_items)) ! 1
     = \<lparr>extracted_data = [(''invoice_number'', PNone), (''total'', PNone)],
        cost = 0, processing_time = 0, cache_hit = False\<rparr>"
proof -
  have "fst (batch_item_try (stub_world invoice_pages stub_reply) st tc (batch_items ! 1))
          = Inl FileNotFoundError" for st tc
    by (simp add: batch_item_try_def batch_items_def stub_world_def os_path_join_def)
  then show ?thesis
    using extract_batch_results [of "stub_world invoice_pages stub_reply" init_state batch_items]
    by (simp add: batch_items_def invoice_schema_def keys_def)
qed

end
